theory Spec2Isabelle
  imports Main "HOL-Library.Sublist"
begin

section \<open>JavaScript values, errors and outcomes\<close>

text \<open>
  The values that reach \<^verbatim>\<open>lib/datachannel/client.js\<close> from outside: the result of
  \<^verbatim>\<open>JSON.parse\<close>, the fields of a contact and of a pointer. A string is the list of its code
  units (those below 256, which is what \<open>char\<close> holds); a number is an integer, as the
  protocol's status codes and ports are, so that \<^verbatim>\<open>NaN\<close>, the infinities and the fractions are
  not values of the model; an object is the list of its own properties, one entry per
  name; a function is not a value of the model.
\<close>

datatype jsval =
    JUndefined
  | JNull
  | JBool bool
  | JNum int
  | JStr string
  | JBuffer string
  | JArr "jsval list"
  | JObj "(string \<times> jsval) list"

text \<open>
  What a handler can throw or emit: the \<^verbatim>\<open>SyntaxError\<close> of \<^verbatim>\<open>JSON.parse\<close>, the \<^verbatim>\<open>TypeError\<close>
  of a property read on \<^verbatim>\<open>null\<close> or \<^verbatim>\<open>undefined\<close> and of a call of something that is no
  function, the \<^verbatim>\<open>AssertionError\<close> of \<^verbatim>\<open>assert\<close> with its message, and \<^verbatim>\<open>new Error(v)\<close>.
\<close>

datatype js_error =
    SyntaxError
  | TypeError
  | AssertionError string
  | Error jsval

text \<open>
  A handler either returns, or throws with the state as the throw found it: JavaScript
  undoes nothing, and the statements after the throw are not executed.
\<close>

datatype 'a outcome =
    Returns 'a
  | Throws js_error 'a

fun state_of :: "'a outcome \<Rightarrow> 'a" where
  "state_of (Returns s) = s"
| "state_of (Throws e s) = s"

fun returns :: "'a outcome \<Rightarrow> bool" where
  "returns (Returns s) = True"
| "returns (Throws e s) = False"

fun and_then :: "'a outcome \<Rightarrow> ('a \<Rightarrow> 'a outcome) \<Rightarrow> 'a outcome" where
  "and_then (Returns s) f = f s"
| "and_then (Throws e s) f = Throws e s"

text \<open>Truthiness, as \<^verbatim>\<open>if (v)\<close> and \<^verbatim>\<open>v && w\<close> test it.\<close>

fun truthy :: "jsval \<Rightarrow> bool" where
  "truthy JUndefined = False"
| "truthy JNull = False"
| "truthy (JBool b) = b"
| "truthy (JNum n) = (n \<noteq> 0)"
| "truthy (JStr s) = (s \<noteq> [])"
| "truthy (JBuffer b) = True"
| "truthy (JArr vs) = True"
| "truthy (JObj fs) = True"

text \<open>
  The property read \<^verbatim>\<open>v.name\<close>, for the names this file reads (\<^verbatim>\<open>code\<close>, \<^verbatim>\<open>message\<close>,
  \<^verbatim>\<open>address\<close>, \<^verbatim>\<open>port\<close>, \<^verbatim>\<open>farmer\<close>, \<^verbatim>\<open>token\<close>, \<^verbatim>\<open>hash\<close>, \<^verbatim>\<open>operation\<close>): it throws on
  \<^verbatim>\<open>null\<close> and \<^verbatim>\<open>undefined\<close>, finds an object's own property, and is \<^verbatim>\<open>undefined\<close> on every
  other value, none of these names being a property of a string, a number, a boolean, a
  Buffer or an array.
\<close>

definition own :: "(string \<times> jsval) list \<Rightarrow> string \<Rightarrow> jsval" where
  "own fs name = (case map_of fs name of None \<Rightarrow> JUndefined | Some v \<Rightarrow> v)"

fun get_prop :: "jsval \<Rightarrow> string \<Rightarrow> js_error + jsval" where
  "get_prop JUndefined name = Inl TypeError"
| "get_prop JNull name = Inl TypeError"
| "get_prop (JObj fs) name = Inr (own fs name)"
| "get_prop v name = Inr JUndefined"

text \<open>
  \<^verbatim>\<open>emitter.emit('error', e)\<close> of Node's \<^verbatim>\<open>events\<close>: with a listener for \<^verbatim>\<open>'error'\<close> the
  listeners are called and \<^verbatim>\<open>emit\<close> returns; with none, \<^verbatim>\<open>emit\<close> throws \<open>e\<close>. The first
  argument is the number of listeners, the third the state with the emission recorded.
\<close>

definition emit_error :: "nat \<Rightarrow> js_error \<Rightarrow> 'a \<Rightarrow> 'a outcome" where
  "emit_error listeners e s = (if listeners = 0 then Throws e s else Returns s)"

section \<open>The channel: one client, one stream\<close>

text \<open>
  A message of the WebSocket client arrives as a Buffer (a binary frame) or as a string
  (a text frame).
\<close>

datatype frame =
    Binary string
  | Text string

fun frame_value :: "frame \<Rightarrow> jsval" where
  "frame_value (Binary b) = JBuffer b"
| "frame_value (Text t) = JStr t"

datatype ready_state = CONNECTING | OPEN | CLOSING | CLOSED

text \<open>
  The callbacks the two adapters hand to \<^verbatim>\<open>self._client.send\<close>: the pull adapter's
  \<^verbatim>\<open>function() { auth = true; }\<close>, the push adapter's
  \<^verbatim>\<open>function() { auth = true; sendData(chunk, next); }\<close> with the chunk it closes over, and
  the Writable's \<^verbatim>\<open>next\<close> itself.
\<close>

datatype callback =
    AuthPull
  | AuthPush string
  | WriteNext

text \<open>
  What the adapters do to the world, in the order they do it. \<open>Completed\<close> marks the
  moment the transport calls the callback of a send.
\<close>

datatype action =
    SendJson jsval
  | SendBinary string
  | Completed
  | CloseClient
  | StreamError js_error
  | SessionError js_error
  | Push string
  | PushNull

text \<open>
  The state the closures of \<^verbatim>\<open>createReadStream\<close> and \<^verbatim>\<open>createWriteStream\<close> share:
  \<^item> \<open>readyState\<close> is \<^verbatim>\<open>self._client.readyState\<close>;
  \<^item> \<open>sending\<close> holds the callbacks of the sends that have not completed, oldest first;
  \<^item> \<open>session_listeners\<close> counts the \<^verbatim>\<open>'error'\<close> listeners of \<^verbatim>\<open>self\<close>, \<open>stream_listeners\<close>
    those of the stream;
  \<^item> \<open>auth\<close> is the closure variable \<^verbatim>\<open>auth\<close>;
  \<^item> \<open>writing\<close> and \<open>buffered\<close> are the Writable's own state: a call of \<^verbatim>\<open>write\<close> is under
    way until its \<^verbatim>\<open>next\<close> is called, and chunks the producer writes meanwhile wait;
  \<^item> \<open>trace\<close> is what has been done so far.
\<close>

record channel =
  readyState :: ready_state
  sending :: "callback list"
  session_listeners :: nat
  stream_listeners :: nat
  auth :: bool
  writing :: bool
  buffered :: "string list"
  trace :: "action list"

definition act :: "action \<Rightarrow> channel \<Rightarrow> channel" where
  "act a s = s\<lparr>trace := trace s @ [a]\<rparr>"

text \<open>
  \<^verbatim>\<open>self._client.send(data, cb)\<close>: the frame is handed to the transport and \<open>cb\<close> waits for
  the completion of the send.
\<close>

definition client_send :: "action \<Rightarrow> callback \<Rightarrow> channel \<Rightarrow> channel" where
  "client_send a cb s = (act a s)\<lparr>sending := sending s @ [cb]\<rparr>"

text \<open>\<^verbatim>\<open>rstream.emit('error', e)\<close> and \<^verbatim>\<open>wstream.emit('error', e)\<close>.\<close>

definition stream_emit :: "js_error \<Rightarrow> channel \<Rightarrow> channel outcome" where
  "stream_emit e s = emit_error (stream_listeners s) e (act (StreamError e) s)"

text \<open>\<^verbatim>\<open>self.emit('error', e)\<close>, on the DataChannelClient.\<close>

definition session_emit :: "js_error \<Rightarrow> channel \<Rightarrow> channel outcome" where
  "session_emit e s = emit_error (session_listeners s) e (act (SessionError e) s)"

text \<open>
  The object both adapters stringify and send first:
  \<^verbatim>\<open>{token: token, hash: hash, operation: 'PULL'}\<close>, or \<^verbatim>\<open>'PUSH'\<close>.
\<close>

definition handshake :: "jsval \<Rightarrow> jsval \<Rightarrow> string \<Rightarrow> jsval" where
  "handshake token hash operation =
     JObj [(''token'', token), (''hash'', hash), (''operation'', JStr operation)]"

text \<open>
  The two statements the message handlers share, on the value \<^verbatim>\<open>data\<close> holds after the
  \<^verbatim>\<open>try\<close>:
  \<^verbatim>\<open>if (data.code && data.code !== 200) { stream.emit('error', new Error(data.message)); }\<close>
\<close>

definition check_code :: "jsval \<Rightarrow> channel \<Rightarrow> channel outcome" where
  "check_code data s =
     (case get_prop data ''code'' of
        Inl e \<Rightarrow> Throws e s
      | Inr code \<Rightarrow>
          if truthy code \<and> code \<noteq> JNum 200
          then (case get_prop data ''message'' of
                  Inl e \<Rightarrow> Throws e s
                | Inr message \<Rightarrow> stream_emit (Error message) s)
          else Returns s)"

text \<open>
  \<^verbatim>\<open>try { data = JSON.parse(data); } catch (err) { stream.emit('error', err); }\<close>
  followed by the check of the code. \<open>JSON_parse\<close> is the built-in, applied to the message
  as it arrived; \<open>None\<close> is its \<^verbatim>\<open>SyntaxError\<close>. When it throws, \<^verbatim>\<open>data\<close> keeps the message.
\<close>

definition parse_and_check ::
  "(frame \<Rightarrow> jsval option) \<Rightarrow> frame \<Rightarrow> channel \<Rightarrow> channel outcome" where
  "parse_and_check JSON_parse data s =
     (case JSON_parse data of
        None \<Rightarrow> and_then (stream_emit SyntaxError s) (check_code (frame_value data))
      | Some v \<Rightarrow> check_code v s)"

subsection \<open>createReadStream\<close>

text \<open>The \<^verbatim>\<open>read\<close> of the Readable.\<close>

definition read :: "jsval \<Rightarrow> jsval \<Rightarrow> channel \<Rightarrow> channel" where
  "read token hash s =
     (if \<not> auth s then client_send (SendJson (handshake token hash ''PULL'')) AuthPull s
      else s)"

text \<open>The listener of the client's \<^verbatim>\<open>'message'\<close>.\<close>

definition pull_message ::
  "(frame \<Rightarrow> jsval option) \<Rightarrow> frame \<Rightarrow> channel \<Rightarrow> channel outcome" where
  "pull_message JSON_parse data s =
     (case data of
        Text t \<Rightarrow>
          and_then (parse_and_check JSON_parse data s) (\<lambda>s'. Returns (act CloseClient s'))
      | Binary b \<Rightarrow> Returns (act (Push b) s))"

text \<open>The listener of the client's \<^verbatim>\<open>'close'\<close>.\<close>

definition pull_close :: "channel \<Rightarrow> channel" where
  "pull_close s = act PushNull s"

subsection \<open>createWriteStream\<close>

definition sendData :: "string \<Rightarrow> channel \<Rightarrow> channel outcome" where
  "sendData chunk s =
     (if readyState s \<noteq> OPEN
      then session_emit (Error (JStr ''Remote host terminated early'')) s
      else Returns (client_send (SendBinary chunk) WriteNext s))"

text \<open>The \<^verbatim>\<open>write\<close> of the Writable (\<open>write\<close> is a keyword of Isabelle).\<close>

definition write_chunk :: "jsval \<Rightarrow> jsval \<Rightarrow> string \<Rightarrow> channel \<Rightarrow> channel outcome" where
  "write_chunk token hash chunk s =
     (if \<not> auth s
      then Returns (client_send (SendJson (handshake token hash ''PUSH'')) (AuthPush chunk) s)
      else sendData chunk s)"

text \<open>The listener of the client's \<^verbatim>\<open>'message'\<close>: it parses whatever arrives.\<close>

definition push_message ::
  "(frame \<Rightarrow> jsval option) \<Rightarrow> frame \<Rightarrow> channel \<Rightarrow> channel outcome" where
  "push_message JSON_parse data s =
     and_then (parse_and_check JSON_parse data s) (\<lambda>s'. Returns (act CloseClient s'))"

subsection \<open>The Writable around \<^verbatim>\<open>write\<close>\<close>

text \<open>
  The stream library (\<^verbatim>\<open>readable-stream\<close>) serialises the calls of \<^verbatim>\<open>write\<close>:
  \<^verbatim>\<open>wstream.write(chunk)\<close> calls it when no call is under way and buffers the chunk
  otherwise; \<^verbatim>\<open>next()\<close> ends the call and starts the next one on the oldest buffered chunk;
  \<^verbatim>\<open>next(err)\<close> ends the call and emits \<open>err\<close> on the stream.
\<close>

definition writable_write :: "jsval \<Rightarrow> jsval \<Rightarrow> string \<Rightarrow> channel \<Rightarrow> channel outcome" where
  "writable_write token hash chunk s =
     (if writing s then Returns (s\<lparr>buffered := buffered s @ [chunk]\<rparr>)
      else write_chunk token hash chunk (s\<lparr>writing := True\<rparr>))"

definition writable_next ::
  "jsval \<Rightarrow> jsval \<Rightarrow> js_error option \<Rightarrow> channel \<Rightarrow> channel outcome" where
  "writable_next token hash err s =
     (case err of
        Some e \<Rightarrow> stream_emit e (s\<lparr>writing := False\<rparr>)
      | None \<Rightarrow>
          (case buffered s of
             [] \<Rightarrow> Returns (s\<lparr>writing := False\<rparr>)
           | chunk # rest \<Rightarrow> write_chunk token hash chunk (s\<lparr>buffered := rest\<rparr>)))"

subsection \<open>Events\<close>

text \<open>
  The transport calls the callback of the oldest send that has not completed, with the
  error of a failed send or with nothing. The two \<^verbatim>\<open>auth\<close> callbacks ignore the argument.
\<close>

fun run_callback ::
  "jsval \<Rightarrow> jsval \<Rightarrow> callback \<Rightarrow> js_error option \<Rightarrow> channel \<Rightarrow> channel outcome" where
  "run_callback token hash AuthPull err s = Returns (s\<lparr>auth := True\<rparr>)"
| "run_callback token hash (AuthPush chunk) err s = sendData chunk (s\<lparr>auth := True\<rparr>)"
| "run_callback token hash WriteNext err s = writable_next token hash err s"

definition complete :: "jsval \<Rightarrow> jsval \<Rightarrow> js_error option \<Rightarrow> channel \<Rightarrow> channel outcome" where
  "complete token hash err s =
     (case sending s of
        [] \<Rightarrow> Returns s
      | cb # rest \<Rightarrow> run_callback token hash cb err (act Completed (s\<lparr>sending := rest\<rparr>)))"

text \<open>
  What can happen to a channel: the consumer's demand calls \<^verbatim>\<open>read\<close>, the producer writes a
  chunk, a send completes, a message arrives, the connection closes, the client's
  \<^verbatim>\<open>readyState\<close> changes.
\<close>

datatype event =
    Read
  | Write string
  | Sent "js_error option"
  | Message frame
  | Close
  | ReadyState ready_state

text \<open>
  A pull channel has no \<^verbatim>\<open>write\<close>, and a push channel neither a \<^verbatim>\<open>read\<close> nor a listener of
  \<^verbatim>\<open>'close'\<close>.
\<close>

fun pull_step ::
  "(frame \<Rightarrow> jsval option) \<Rightarrow> jsval \<Rightarrow> jsval \<Rightarrow> event \<Rightarrow> channel \<Rightarrow> channel outcome" where
  "pull_step P token hash Read s = Returns (read token hash s)"
| "pull_step P token hash (Sent err) s = complete token hash err s"
| "pull_step P token hash (Message data) s = pull_message P data s"
| "pull_step P token hash Close s = Returns (pull_close s)"
| "pull_step P token hash (ReadyState r) s = Returns (s\<lparr>readyState := r\<rparr>)"
| "pull_step P token hash (Write chunk) s = Returns s"

fun push_step ::
  "(frame \<Rightarrow> jsval option) \<Rightarrow> jsval \<Rightarrow> jsval \<Rightarrow> event \<Rightarrow> channel \<Rightarrow> channel outcome" where
  "push_step P token hash (Write chunk) s = writable_write token hash chunk s"
| "push_step P token hash (Sent err) s = complete token hash err s"
| "push_step P token hash (Message data) s = push_message P data s"
| "push_step P token hash (ReadyState r) s = Returns (s\<lparr>readyState := r\<rparr>)"
| "push_step P token hash Close s = Returns s"
| "push_step P token hash Read s = Returns s"

text \<open>A run handles the events in turn and stops at the first handler that throws.\<close>

fun run :: "(event \<Rightarrow> channel \<Rightarrow> channel outcome) \<Rightarrow> event list \<Rightarrow> channel \<Rightarrow> channel outcome" where
  "run step [] s = Returns s"
| "run step (e # es) s = and_then (step e s) (run step es)"


text \<open>The channel as \<^verbatim>\<open>createReadStream\<close> or \<^verbatim>\<open>createWriteStream\<close> finds it.\<close>

definition fresh :: "ready_state \<Rightarrow> nat \<Rightarrow> nat \<Rightarrow> channel" where
  "fresh r session_ls stream_ls =
     \<lparr>readyState = r, sending = [], session_listeners = session_ls,
      stream_listeners = stream_ls, auth = False, writing = False, buffered = [],
      trace = []\<rparr>"

text \<open>What the stream's consumer is given: the pushes and the errors emitted on it.\<close>

fun on_stream :: "action \<Rightarrow> bool" where
  "on_stream (Push b) = True"
| "on_stream PushNull = True"
| "on_stream (StreamError e) = True"
| "on_stream a = False"

fun binary_frames :: "event list \<Rightarrow> string list" where
  "binary_frames [] = []"
| "binary_frames (Message (Binary b) # es) = b # binary_frames es"
| "binary_frames (e # es) = binary_frames es"

fun is_text_message :: "event \<Rightarrow> bool" where
  "is_text_message (Message (Text t)) = True"
| "is_text_message e = False"

text \<open>The frames the adapter has handed to the transport, in order.\<close>

fun is_send :: "action \<Rightarrow> bool" where
  "is_send (SendJson v) = True"
| "is_send (SendBinary b) = True"
| "is_send a = False"

definition sends :: "action list \<Rightarrow> action list" where
  "sends as = filter is_send as"

text \<open>The errors emitted on the stream, in order.\<close>

fun stream_errors :: "action list \<Rightarrow> js_error list" where
  "stream_errors [] = []"
| "stream_errors (StreamError e # as) = e # stream_errors as"
| "stream_errors (a # as) = stream_errors as"

text \<open>The chunks the producer writes in a sequence of events.\<close>

fun written :: "event list \<Rightarrow> string list" where
  "written [] = []"
| "written (Write chunk # es) = chunk # written es"
| "written (e # es) = written es"



text \<open>The error of \<^verbatim>\<open>sendData\<close>.\<close>

definition terminated_early :: js_error where
  "terminated_early = Error (JStr ''Remote host terminated early'')"

text \<open>
  \<^verbatim>\<open>JSON.parse\<close> on the texts that serve as concrete inputs below, a string or the content of
  a Buffer alike: \<^verbatim>\<open>null\<close>, a number and three control messages. Any other text is answered
  as one that is not JSON, and nothing below rests on that answer: the theorems hold for
  every \<open>JSON_parse\<close>, and this excerpt only instantiates them.
\<close>

fun frame_text :: "frame \<Rightarrow> string" where
  "frame_text (Binary b) = b"
| "frame_text (Text t) = t"

definition JSON_parse_excerpt :: "frame \<Rightarrow> jsval option" where
  \<open>JSON_parse_excerpt data =
     (let t = frame_text data in
      if t = ''null'' then Some JNull
      else if t = ''7'' then Some (JNum 7)
      else if t = ''{"code":404,"message":"not found"}''
        then Some (JObj [(''code'', JNum 404), (''message'', JStr ''not found'')])
      else if t = ''{"code":200,"message":"ok"}''
        then Some (JObj [(''code'', JNum 200), (''message'', JStr ''ok'')])
      else if t = ''{"code":0,"message":"failed"}''
        then Some (JObj [(''code'', JNum 0), (''message'', JStr ''failed'')])
      else None)\<close>

section \<open>The client and the resolver\<close>

subsection \<open>getChannelURL\<close>

text \<open>
  \<^verbatim>\<open>String.prototype.trim\<close> removes white space and line terminators from both ends; among
  the code units below 256 these are TAB, LF, VT, FF, CR, SPACE and NBSP.
\<close>

definition is_space :: "char \<Rightarrow> bool" where
  "is_space c = (c \<in> set [CHR 0x09, CHR 0x0A, CHR 0x0B, CHR 0x0C, CHR 0x0D, CHR 0x20, CHR 0xA0])"

definition trim :: "string \<Rightarrow> string" where
  "trim s = rev (dropWhile is_space (rev (dropWhile is_space s)))"

text \<open>
  A contact that has passed the constructor's assertions: its address is a string and its
  port a number, an integer in this model.
\<close>

record contact =
  address :: string
  port :: int

text \<open>
  \<^verbatim>\<open>url.format({protocol: p, slashes: true, hostname: h, port: n})\<close> of Node's \<^verbatim>\<open>url\<close>, with
  no other field set: a colon is put after the protocol when it has none; the host is
  empty when \<open>h\<close> is, else \<open>h\<close> (in brackets when it holds a colon) and, when the port is
  truthy, a colon and the port as a string; the result is the protocol, two slashes and
  the host. \<open>Number_toString\<close> is the built-in conversion of a number to a string.
\<close>

definition url_format :: "(int \<Rightarrow> string) \<Rightarrow> string \<Rightarrow> string \<Rightarrow> int \<Rightarrow> string" where
  "url_format Number_toString protocol hostname n =
     (let host =
        (if hostname \<noteq> []
         then (if CHR '':'' \<in> set hostname then ''['' @ hostname @ '']'' else hostname) @
              (if n \<noteq> 0 then '':'' @ Number_toString n else [])
         else []);
          proto = (if protocol \<noteq> [] \<and> last protocol \<noteq> CHR '':'' then protocol @ '':'' else protocol)
      in proto @ ''//'' @ host)"

definition getChannelURL :: "(int \<Rightarrow> string) \<Rightarrow> contact \<Rightarrow> string" where
  "getChannelURL Number_toString c = url_format Number_toString ''ws'' (trim (address c)) (port c)"

text \<open>
  The decimal digits of an integer, which is what \<^verbatim>\<open>Number.prototype.toString\<close> gives for an
  integer below \<open>10\<^sup>2\<^sup>1\<close> in magnitude. It instantiates \<open>Number_toString\<close> at concrete ports.
\<close>

fun digits :: "nat \<Rightarrow> string" where
  "digits n =
     (if n < 10 then [''0123456789'' ! n] else digits (n div 10) @ [''0123456789'' ! (n mod 10)])"

definition decimal :: "int \<Rightarrow> string" where
  "decimal i = (if i < 0 then ''-'' @ digits (nat (- i)) else digits (nat i))"

subsection \<open>The constructor\<close>

text \<open>
  The \<^verbatim>\<open>'error'\<close> listeners of a client: the callback handed to \<^verbatim>\<open>getStreamFromPointer\<close>, or a
  listener somebody else has registered. The listener of \<^verbatim>\<open>'open'\<close> is the closure of
  \<^verbatim>\<open>getStreamFromPointer\<close>, with the properties of the pointer it closes over.
\<close>

datatype error_listener = Callback | Another

datatype open_listener = OnOpen "(string \<times> jsval) list"

text \<open>
  A call of the callback: \<^verbatim>\<open>callback(err)\<close>, or \<^verbatim>\<open>callback(null, stream)\<close> with the stream
  \<^verbatim>\<open>createWriteStream(token, hash)\<close> or \<^verbatim>\<open>createReadStream(token, hash)\<close> made.
\<close>

datatype stream_kind = Readable | Writable

datatype call =
    CallError js_error
  | CallStream stream_kind jsval jsval

record client =
  farmer :: contact
  socket :: string
  error_listeners :: "error_listener list"
  open_listeners :: "open_listener list"
  calls :: "call list"

text \<open>
  \<^verbatim>\<open>new DataChannelClient(contact)\<close>: the three assertions, then the WebSocket to the
  channel's URL. The second component is the list of the URLs a WebSocket has been opened
  to; the assertions leave it alone.
\<close>

definition DataChannelClient ::
  "(int \<Rightarrow> string) \<Rightarrow> jsval \<Rightarrow> string list \<Rightarrow> (js_error + client) \<times> string list" where
  "DataChannelClient Number_toString c sockets =
     (if \<not> truthy c then (Inl (AssertionError ''No contact was supplied to constructor''), sockets)
      else
        (case get_prop c ''address'' of
           Inl e \<Rightarrow> (Inl e, sockets)
         | Inr a \<Rightarrow>
             (case a of
                JStr addr \<Rightarrow>
                  (case get_prop c ''port'' of
                     Inl e \<Rightarrow> (Inl e, sockets)
                   | Inr p \<Rightarrow>
                       (case p of
                          JNum n \<Rightarrow>
                            (let k = \<lparr>address = addr, port = n\<rparr>;
                                 u = getChannelURL Number_toString k
                             in (Inr \<lparr>farmer = k, socket = u, error_listeners = [],
                                      open_listeners = [], calls = []\<rparr>,
                                 sockets @ [u]))
                        | _ \<Rightarrow> (Inl (AssertionError ''Invalid contact port''), sockets)))
              | _ \<Rightarrow> (Inl (AssertionError ''Invalid contact address''), sockets))))"

subsection \<open>getStreamFromPointer\<close>

text \<open>
  The argument: an object that is an instance of \<^verbatim>\<open>DataChannelPointer\<close>, with its
  properties, or any other value.
\<close>

datatype pointer_arg =
    Instance "(string \<times> jsval) list"
  | NotInstance jsval

definition getStreamFromPointer ::
  "(int \<Rightarrow> string) \<Rightarrow> pointer_arg \<Rightarrow> string list \<Rightarrow> (js_error + client) \<times> string list" where
  "getStreamFromPointer Number_toString pointer sockets =
     (case pointer of
        NotInstance v \<Rightarrow> (Inl (AssertionError ''Invalid pointer supplied''), sockets)
      | Instance fs \<Rightarrow>
          (case DataChannelClient Number_toString (own fs ''farmer'') sockets of
             (Inl e, w) \<Rightarrow> (Inl e, w)
           | (Inr dcx, w) \<Rightarrow>
               (Inr (dcx\<lparr>error_listeners := error_listeners dcx @ [Callback],
                          open_listeners := open_listeners dcx @ [OnOpen fs]\<rparr>), w)))"

text \<open>
  \<^verbatim>\<open>_handleChannelError\<close>: \<^verbatim>\<open>this.emit('error', err)\<close>. Each registration of the callback is
  a call of it.
\<close>

definition handleChannelError :: "js_error \<Rightarrow> client \<Rightarrow> client outcome" where
  "handleChannelError err dcx =
     emit_error (length (error_listeners dcx)) err
       (dcx\<lparr>calls := calls dcx @ map (\<lambda>l. CallError err) (filter (\<lambda>l. l = Callback) (error_listeners dcx))\<rparr>)"

text \<open>The closure \<^verbatim>\<open>getStreamFromPointer\<close> registers for \<^verbatim>\<open>'open'\<close>.\<close>

fun on_open :: "open_listener \<Rightarrow> client \<Rightarrow> client" where
  "on_open (OnOpen fs) dcx =
     (let dcx' = dcx\<lparr>error_listeners := []\<rparr> in
      if own fs ''operation'' = JStr ''PUSH''
      then dcx'\<lparr>calls := calls dcx' @ [CallStream Writable (own fs ''token'') (own fs ''hash'')]\<rparr>
      else dcx'\<lparr>calls := calls dcx' @ [CallStream Readable (own fs ''token'') (own fs ''hash'')]\<rparr>)"

text \<open>\<^verbatim>\<open>_handleChannelOpen\<close>: \<^verbatim>\<open>this.emit('open')\<close> calls the listeners in turn.\<close>

definition handleChannelOpen :: "client \<Rightarrow> client" where
  "handleChannelOpen dcx = fold on_open (open_listeners dcx) dcx"

text \<open>The two events of the WebSocket the constructor listens to.\<close>

datatype client_event =
    ClientOpen
  | ClientError js_error

fun client_step :: "client_event \<Rightarrow> client \<Rightarrow> client outcome" where
  "client_step ClientOpen dcx = Returns (handleChannelOpen dcx)"
| "client_step (ClientError err) dcx = handleChannelError err dcx"

fun client_run :: "client_event list \<Rightarrow> client \<Rightarrow> client outcome" where
  "client_run [] dcx = Returns dcx"
| "client_run (e # es) dcx = and_then (client_step e dcx) (client_run es)"

text \<open>
  What the assertions of the resolver and of the constructor let through: an instance of
  \<^verbatim>\<open>DataChannelPointer\<close> whose \<^verbatim>\<open>farmer\<close> has a string for address and a number for port.
\<close>

fun passes_validation :: "pointer_arg \<Rightarrow> bool" where
  "passes_validation (NotInstance v) = False"
| "passes_validation (Instance fs) =
     (case get_prop (own fs ''farmer'') ''address'' of
        Inr (JStr a) \<Rightarrow>
          (case get_prop (own fs ''farmer'') ''port'' of Inr (JNum n) \<Rightarrow> True | _ \<Rightarrow> False)
      | _ \<Rightarrow> False)"

text \<open>What an event puts on the stream of a pull channel when no text frame is involved.\<close>

fun stream_output :: "event \<Rightarrow> action list" where
  "stream_output (Message (Binary b)) = [Push b]"
| "stream_output Close = [PushNull]"
| "stream_output e = []"

text \<open>Every send that has not completed is a handshake of the pull adapter.\<close>

definition only_auth_pull :: "channel \<Rightarrow> bool" where
  "only_auth_pull s = list_all (\<lambda>cb. cb = AuthPull) (sending s)"




section \<open>Notions the proofs use\<close>




text \<open>
  The order of the frames a channel has sent: none yet, or the handshake and after it
  binary frames only.
\<close>

fun is_chunk :: "action \<Rightarrow> bool" where
  "is_chunk (SendBinary b) = True"
| "is_chunk a = False"




text \<open>A pointer to a farmer at 10.0.0.7:4000, and the client the resolver makes of it.\<close>

definition example_pointer :: pointer_arg where
  "example_pointer =
     Instance [(''farmer'', JObj [(''address'', JStr ''10.0.0.7''), (''port'', JNum 4000)]),
               (''token'', JStr ''t''), (''hash'', JStr ''h''), (''operation'', JStr ''PULL'')]"

definition example_client :: client where
  "example_client =
     \<lparr>farmer = \<lparr>address = ''10.0.0.7'', port = 4000\<rparr>, socket = ''ws://10.0.0.7:4000'',
      error_listeners = [Callback],
      open_listeners =
        [OnOpen [(''farmer'', JObj [(''address'', JStr ''10.0.0.7''), (''port'', JNum 4000)]),
                 (''token'', JStr ''t''), (''hash'', JStr ''h''), (''operation'', JStr ''PULL'')]],
      calls = []\<rparr>"

section \<open>Properties\<close>

subsection \<open>Records, traces and emissions\<close>

lemma trace_act [simp]: "trace (act a s) = trace s @ [a]"
  and sending_act [simp]: "sending (act a s) = sending s"
  and auth_act [simp]: "auth (act a s) = auth s"
  and writing_act [simp]: "writing (act a s) = writing s"
  and buffered_act [simp]: "buffered (act a s) = buffered s"
  and readyState_act [simp]: "readyState (act a s) = readyState s"
  and stream_listeners_act [simp]: "stream_listeners (act a s) = stream_listeners s"
  and session_listeners_act [simp]: "session_listeners (act a s) = session_listeners s"
  by (simp_all add: act_def)

lemma client_send_fields [simp]:
  "trace (client_send a cb s) = trace s @ [a]"
  "sending (client_send a cb s) = sending s @ [cb]"
  "auth (client_send a cb s) = auth s"
  "writing (client_send a cb s) = writing s"
  "buffered (client_send a cb s) = buffered s"
  "readyState (client_send a cb s) = readyState s"
  by (simp_all add: client_send_def)

lemma sends_snoc [simp]: "sends (as @ [a]) = sends as @ (if is_send a then [a] else [])"
  by (simp add: sends_def)

lemma sends_Nil [simp]: "sends [] = []"
  by (simp add: sends_def)

lemma stream_errors_append [simp]: "stream_errors (as @ bs) = stream_errors as @ stream_errors bs"
  by (induction as rule: stream_errors.induct) auto

lemma state_of_emit_error [simp]: "state_of (emit_error n e s) = s"
  by (simp add: emit_error_def)

lemma returns_emit_error [simp]: "returns (emit_error n e s) = (n \<noteq> 0)"
  by (simp add: emit_error_def)

lemma state_of_and_then:
  "state_of (and_then r f) = (case r of Returns s \<Rightarrow> state_of (f s) | Throws e s \<Rightarrow> s)"
  by (cases r) auto

lemma written_append [simp]: "written (es @ fs) = written es @ written fs"
  by (induction es rule: written.induct) auto

subsection \<open>Pull: binary frames and the end of the stream\<close>

lemma pull_step_quiet:
  assumes "only_auth_pull s" and "\<not> is_text_message e"
  shows "\<exists>s'. pull_step P token hash e s = Returns s' \<and> only_auth_pull s' \<and>
           filter on_stream (trace s') = filter on_stream (trace s) @ stream_output e"
proof (cases e)
  case Read
  then show ?thesis using assms
    by (simp add: read_def client_send_def only_auth_pull_def)
next
  case (Write c)
  then show ?thesis using assms by simp
next
  case (Sent err)
  show ?thesis
  proof (cases "sending s")
    case Nil
    then show ?thesis using Sent assms by (simp add: complete_def)
  next
    case (Cons cb rest)
    then have "cb = AuthPull" using assms by (simp add: only_auth_pull_def)
    then show ?thesis using Sent Cons assms
      by (simp add: complete_def only_auth_pull_def)
  qed
next
  case (Message data)
  then obtain b where "data = Binary b" using assms by (cases data) auto
  then show ?thesis using Message assms
    by (simp add: pull_message_def only_auth_pull_def)
next
  case Close
  then show ?thesis using assms by (simp add: pull_close_def only_auth_pull_def)
next
  case (ReadyState r)
  then show ?thesis using assms by (simp add: only_auth_pull_def)
qed

lemma binary_frames_output:
  "\<forall>e \<in> set es. e \<noteq> Close \<Longrightarrow> concat (map stream_output es) = map Push (binary_frames es)"
  by (induction es rule: binary_frames.induct) auto

lemma pull_run_quiet:
  assumes "only_auth_pull s" and "\<forall>e \<in> set es. \<not> is_text_message e"
  shows "\<exists>s'. run (pull_step P token hash) es s = Returns s' \<and> only_auth_pull s' \<and>
           filter on_stream (trace s') = filter on_stream (trace s) @ concat (map stream_output es)"
  using assms
proof (induction es arbitrary: s)
  case Nil
  then show ?case by simp
next
  case (Cons e es)
  then obtain s1 where s1: "pull_step P token hash e s = Returns s1" "only_auth_pull s1"
      "filter on_stream (trace s1) = filter on_stream (trace s) @ stream_output e"
    using pull_step_quiet [of s e P token hash] by auto
  from Cons.IH [OF s1(2)] Cons.prems(2) obtain s' where
      "run (pull_step P token hash) es s1 = Returns s'" "only_auth_pull s'"
      "filter on_stream (trace s') = filter on_stream (trace s1) @ concat (map stream_output es)"
    by auto
  with s1 show ?case by simp
qed

text \<open>
  C2. On a pull channel, whatever the reads, completions and state changes in between, a
  sequence of events whose messages are all binary frames, followed by the close of the
  connection, is handled without a throw, and the stream is given exactly those frames,
  unmodified and in arrival order, then the end of the stream, and no error.
\<close>

theorem pull_emits_frames_then_ends:
  assumes "\<forall>e \<in> set es. \<not> is_text_message e \<and> e \<noteq> Close"
  shows "\<exists>s'. run (pull_step P token hash) (es @ [Close]) (fresh r n m) = Returns s' \<and>
           filter on_stream (trace s') = map Push (binary_frames es) @ [PushNull]"
proof -
  have "only_auth_pull (fresh r n m)" by (simp add: only_auth_pull_def fresh_def)
  moreover have "\<forall>e \<in> set (es @ [Close]). \<not> is_text_message e" using assms by simp
  ultimately obtain s' where "run (pull_step P token hash) (es @ [Close]) (fresh r n m) = Returns s'"
     "filter on_stream (trace s') = filter on_stream (trace (fresh r n m)) @ concat (map stream_output (es @ [Close]))"
    using pull_run_quiet by blast
  moreover have "concat (map stream_output es) = map Push (binary_frames es)"
    using assms by (simp add: binary_frames_output)
  ultimately show ?thesis by (simp add: fresh_def)
qed

theorem pull_emits_frames_then_ends_witness:
  "\<exists>s'. run (pull_step (\<lambda>f. None) (JStr ''t'') (JStr ''h''))
          [Read, Message (Binary ''ab''), Sent None, Read, Message (Binary ''c''), Close]
          (fresh OPEN 0 1) = Returns s' \<and>
        filter on_stream (trace s') = [Push ''ab'', Push ''c'', PushNull]"
  using pull_emits_frames_then_ends
    [of "[Read, Message (Binary ''ab''), Sent None, Read, Message (Binary ''c'')]"
        "\<lambda>f. None" "JStr ''t''" "JStr ''h''" OPEN 0 1]
  by simp

subsection \<open>Messages that are not payload\<close>

lemma stream_errors_close:
  "stream_errors (trace (state_of (and_then r (\<lambda>s'. Returns (act CloseClient s'))))) =
     stream_errors (trace (state_of r))"
  by (cases r) auto

lemma check_code_object:
  "stream_errors (trace (state_of (check_code (JObj fs) s))) =
     stream_errors (trace s) @
       (if truthy (own fs ''code'') \<and> own fs ''code'' \<noteq> JNum 200 then [Error (own fs ''message'')] else [])"
  by (simp add: check_code_def stream_emit_def)

text \<open>
  C5, as amended. When the message parses to an object, either adapter emits on its stream
  exactly one error, carrying the object's \<^verbatim>\<open>message\<close>, if the object's \<^verbatim>\<open>code\<close> is truthy
  (present, and not \<open>0\<close>, \<^verbatim>\<open>false\<close>, \<^verbatim>\<open>null\<close> or the empty string) and is not the number 200;
  otherwise it emits none.
\<close>

theorem control_message_error:
  "(P data = Some (JObj fs) \<longrightarrow>
      stream_errors (trace (state_of (push_message P data s))) =
        stream_errors (trace s) @
          (if truthy (own fs ''code'') \<and> own fs ''code'' \<noteq> JNum 200
           then [Error (own fs ''message'')] else []))
   \<and> (P (Text t) = Some (JObj fs) \<longrightarrow>
      stream_errors (trace (state_of (pull_message P (Text t) s))) =
        stream_errors (trace s) @
          (if truthy (own fs ''code'') \<and> own fs ''code'' \<noteq> JNum 200
           then [Error (own fs ''message'')] else []))"
  by (simp add: push_message_def pull_message_def parse_and_check_def stream_errors_close
      check_code_object)

theorem control_message_error_witness:
  \<open>stream_errors (trace (state_of (push_message JSON_parse_excerpt
       (Text ''{"code":404,"message":"not found"}'') (fresh OPEN 0 1)))) = [Error (JStr ''not found'')]
   \<and> stream_errors (trace (state_of (pull_message JSON_parse_excerpt
       (Text ''{"code":404,"message":"not found"}'') (fresh OPEN 0 1)))) = [Error (JStr ''not found'')]
   \<and> stream_errors (trace (state_of (push_message JSON_parse_excerpt
       (Text ''{"code":200,"message":"ok"}'') (fresh OPEN 0 1)))) = []\<close>
  using control_message_error [of JSON_parse_excerpt \<open>Text ''{"code":404,"message":"not found"}''\<close>
      "[(''code'', JNum 404), (''message'', JStr ''not found'')]" "fresh OPEN 0 1"
      \<open>''{"code":404,"message":"not found"}''\<close>]
    control_message_error [of JSON_parse_excerpt \<open>Text ''{"code":200,"message":"ok"}''\<close>
      "[(''code'', JNum 200), (''message'', JStr ''ok'')]" "fresh OPEN 0 1"
      \<open>''{"code":200,"message":"ok"}''\<close>]
  by (simp add: JSON_parse_excerpt_def own_def fresh_def)

text \<open>
  The claim as written fails for the code \<open>0\<close>: it is present and is not 200, and no
  error is emitted; the handler only closes the session.
\<close>

theorem zero_code_counterexample:
  \<open>JSON_parse_excerpt (Text ''{"code":0,"message":"failed"}'') =
      Some (JObj [(''code'', JNum 0), (''message'', JStr ''failed'')])
   \<and> pull_message JSON_parse_excerpt (Text ''{"code":0,"message":"failed"}'') (fresh OPEN 1 1) =
      Returns ((fresh OPEN 1 1)\<lparr>trace := [CloseClient]\<rparr>)
   \<and> push_message JSON_parse_excerpt (Text ''{"code":0,"message":"failed"}'') (fresh OPEN 1 1) =
      Returns ((fresh OPEN 1 1)\<lparr>trace := [CloseClient]\<rparr>)\<close>
  by (simp add: JSON_parse_excerpt_def pull_message_def push_message_def parse_and_check_def
      check_code_def own_def fresh_def act_def)

text \<open>
  C10. When \<^verbatim>\<open>JSON.parse\<close> gives \<^verbatim>\<open>null\<close>, the handler of either adapter throws a
  \<^verbatim>\<open>TypeError\<close> at \<^verbatim>\<open>data.code\<close> with the channel as it was: no error has been emitted on
  the stream and the session has not been closed. When it gives a number, \<^verbatim>\<open>data.code\<close> is
  \<^verbatim>\<open>undefined\<close>, no error is emitted and the session is closed.
\<close>

theorem null_message_throws:
  "(P (Text t) = Some JNull \<longrightarrow> pull_message P (Text t) s = Throws TypeError s)
   \<and> (P data = Some JNull \<longrightarrow> push_message P data s = Throws TypeError s)
   \<and> (P (Text t) = Some (JNum n) \<longrightarrow> pull_message P (Text t) s = Returns (act CloseClient s))
   \<and> (P data = Some (JNum n) \<longrightarrow> push_message P data s = Returns (act CloseClient s))"
  by (simp add: pull_message_def push_message_def parse_and_check_def check_code_def)

theorem null_message_throws_witness:
  "pull_message JSON_parse_excerpt (Text ''null'') (fresh OPEN 1 1) = Throws TypeError (fresh OPEN 1 1)
   \<and> push_message JSON_parse_excerpt (Text ''null'') (fresh OPEN 1 1) = Throws TypeError (fresh OPEN 1 1)
   \<and> stream_errors (trace (fresh OPEN 1 1)) = []
   \<and> pull_message JSON_parse_excerpt (Text ''7'') (fresh OPEN 1 1) = Returns (act CloseClient (fresh OPEN 1 1))"
  using null_message_throws [of JSON_parse_excerpt "''null''" "fresh OPEN 1 1" "Text ''null''" 7]
    null_message_throws [of JSON_parse_excerpt "''7''" "fresh OPEN 1 1" "Text ''7''" 7]
  by (simp add: JSON_parse_excerpt_def fresh_def)

text \<open>
  C4. The text frame \<^verbatim>\<open>null\<close> is JSON; the handler reads \<^verbatim>\<open>data.code\<close> of the parsed \<^verbatim>\<open>null\<close>,
  which throws, and \<^verbatim>\<open>this.close()\<close> is never reached: this non-binary message leaves the
  session open.
\<close>

theorem null_frame_leaves_session_open:
  "pull_message JSON_parse_excerpt (Text ''null'') (fresh OPEN 1 1) = Throws TypeError (fresh OPEN 1 1)
   \<and> CloseClient \<notin> set (trace (state_of (pull_message JSON_parse_excerpt (Text ''null'') (fresh OPEN 1 1))))"
  by (simp add: JSON_parse_excerpt_def pull_message_def parse_and_check_def check_code_def fresh_def)

subsection \<open>Push: a chunk when the connection is not open\<close>

lemma sendData_not_open:
  assumes "readyState s \<noteq> OPEN"
  shows "sendData chunk s = emit_error (session_listeners s) terminated_early (act (SessionError terminated_early) s)"
  using assms by (simp add: sendData_def session_emit_def terminated_early_def)

text \<open>
  C6, as amended. When the connection is not open, a chunk handed to \<^verbatim>\<open>write\<close> after the
  handshake has completed, and the chunk of the handshake's callback, are not sent: the
  error \<^verbatim>\<open>Remote host terminated early\<close> is emitted on the session, the DataChannelClient
  (and thrown when it has no listener), nothing is emitted on the stream, and the chunk's
  \<^verbatim>\<open>next\<close> is not registered with any send. A chunk handed to \<^verbatim>\<open>write\<close> before the handshake
  has completed sends the handshake, whatever the state of the connection. Whatever the
  Writable is doing, a chunk the producer writes while the connection is not open adds no
  binary frame to the trace and nothing to the stream.
\<close>

theorem chunk_while_not_open:
  assumes "readyState s \<noteq> OPEN"
  shows "(auth s \<longrightarrow>
            write_chunk token hash chunk s =
              emit_error (session_listeners s) terminated_early (act (SessionError terminated_early) s))
       \<and> (\<not> auth s \<longrightarrow>
            write_chunk token hash chunk s =
              Returns (client_send (SendJson (handshake token hash ''PUSH'')) (AuthPush chunk) s))
       \<and> run_callback token hash (AuthPush chunk) err s =
            emit_error (session_listeners s) terminated_early
              (act (SessionError terminated_early) (s\<lparr>auth := True\<rparr>))
       \<and> filter (\<lambda>a. is_chunk a \<or> on_stream a)
             (trace (state_of (writable_write token hash chunk s))) =
           filter (\<lambda>a. is_chunk a \<or> on_stream a) (trace s)"
proof -
  have "filter (\<lambda>a. is_chunk a \<or> on_stream a)
          (trace (state_of (writable_write token hash chunk s))) =
        filter (\<lambda>a. is_chunk a \<or> on_stream a) (trace s)"
  proof (cases "writing s")
    case True
    then show ?thesis by (simp add: writable_write_def)
  next
    case False
    then show ?thesis using assms
      by (cases "auth s") (simp_all add: writable_write_def write_chunk_def sendData_not_open)
  qed
  then show ?thesis using assms by (simp add: write_chunk_def sendData_not_open)
qed

theorem chunk_while_not_open_witness:
  "write_chunk (JStr ''t'') (JStr ''h'') ''b'' ((fresh CLOSED 1 1)\<lparr>auth := True\<rparr>) =
     Returns ((fresh CLOSED 1 1)\<lparr>auth := True, trace := [SessionError terminated_early]\<rparr>)"
  using chunk_while_not_open [of "(fresh CLOSED 1 1)\<lparr>auth := True\<rparr>" "JStr ''t''" "JStr ''h''" "''b''" None]
  by (simp add: fresh_def emit_error_def act_def)

text \<open>
  The claim as written fails: after a first chunk has gone through and the connection has
  closed, a second chunk puts the error on the session and nothing on the stream, whose
  write stays under way for ever.
\<close>

theorem stream_not_failed_counterexample:
  "run (push_step JSON_parse_excerpt (JStr ''t'') (JStr ''h''))
      [Write ''a'', Sent None, Sent None, ReadyState CLOSED, Write ''b''] (fresh OPEN 1 1) =
    Returns \<lparr>readyState = CLOSED, sending = [], session_listeners = 1, stream_listeners = 1,
      auth = True, writing = True, buffered = [],
      trace = [SendJson (handshake (JStr ''t'') (JStr ''h'') ''PUSH''), Completed, SendBinary ''a'',
               Completed, SessionError (Error (JStr ''Remote host terminated early''))]\<rparr>"
  by (simp add: fresh_def writable_write_def write_chunk_def client_send_def act_def complete_def
      sendData_def writable_next_def session_emit_def emit_error_def)

subsection \<open>Push: one frame at a time\<close>













subsection \<open>The handshake comes first\<close>

lemma and_then_close_fields [simp]:
  "auth (state_of (and_then r (\<lambda>s'. Returns (act CloseClient s')))) = auth (state_of r)"
  "writing (state_of (and_then r (\<lambda>s'. Returns (act CloseClient s')))) = writing (state_of r)"
  "sending (state_of (and_then r (\<lambda>s'. Returns (act CloseClient s')))) = sending (state_of r)"
  "sends (trace (state_of (and_then r (\<lambda>s'. Returns (act CloseClient s'))))) = sends (trace (state_of r))"
  by (cases r; simp)+

lemma stream_emit_fields [simp]:
  "auth (state_of (stream_emit e s)) = auth s"
  "writing (state_of (stream_emit e s)) = writing s"
  "sending (state_of (stream_emit e s)) = sending s"
  "sends (trace (state_of (stream_emit e s))) = sends (trace s)"
  by (simp_all add: stream_emit_def)

lemma session_emit_fields [simp]:
  "auth (state_of (session_emit e s)) = auth s"
  "writing (state_of (session_emit e s)) = writing s"
  "sending (state_of (session_emit e s)) = sending s"
  "sends (trace (state_of (session_emit e s))) = sends (trace s)"
  by (simp_all add: session_emit_def)

lemma check_code_fields [simp]:
  "auth (state_of (check_code v s)) = auth s"
  "writing (state_of (check_code v s)) = writing s"
  "sending (state_of (check_code v s)) = sending s"
  "sends (trace (state_of (check_code v s))) = sends (trace s)"
  by (simp_all add: check_code_def split: sum.splits)

lemma parse_and_check_fields [simp]:
  "auth (state_of (parse_and_check P data s)) = auth s"
  "writing (state_of (parse_and_check P data s)) = writing s"
  "sending (state_of (parse_and_check P data s)) = sending s"
  "sends (trace (state_of (parse_and_check P data s))) = sends (trace s)"
  by (simp_all add: parse_and_check_def stream_emit_def emit_error_def split: option.splits)




















subsection \<open>The channel URL\<close>

text \<open>
  C9, as amended. For a contact whose trimmed address is not empty and holds no colon and
  whose port is an integer other than \<open>0\<close>, the URL is \<^verbatim>\<open>ws://\<close>, the trimmed address, a
  colon and the port as a string, and nothing after it.
\<close>

theorem channel_url:
  assumes "trim (address c) \<noteq> []" and "CHR '':'' \<notin> set (trim (address c))" and "port c \<noteq> 0"
  shows "getChannelURL N c = ''ws://'' @ trim (address c) @ '':'' @ N (port c)"
  using assms by (simp add: getChannelURL_def url_format_def)

theorem channel_url_witness:
  "getChannelURL decimal \<lparr>address = '' 10.0.0.7  '', port = 8080\<rparr> = ''ws://10.0.0.7:8080''"
  using channel_url [of "\<lparr>address = '' 10.0.0.7  '', port = 8080\<rparr>" decimal]
  by (simp add: trim_def is_space_def decimal_def)

text \<open>
  The claim as written fails for the port \<open>0\<close>, which \<^verbatim>\<open>url.format\<close> leaves out, and for an
  address with a colon in it, which it puts in brackets.
\<close>

theorem zero_port_counterexample:
  "getChannelURL decimal \<lparr>address = ''farmer.example'', port = 0\<rparr> = ''ws://farmer.example''
   \<and> decimal 0 = ''0''
   \<and> getChannelURL decimal \<lparr>address = ''::1'', port = 4000\<rparr> = ''ws://[::1]:4000''"
  by (simp add: getChannelURL_def url_format_def trim_def is_space_def decimal_def)

subsection \<open>The resolver\<close>

lemma constructor_rejects:
  assumes "\<not> passes_validation (Instance fs)"
  shows "\<exists>msg. DataChannelClient N (own fs ''farmer'') sockets = (Inl (AssertionError msg), sockets)"
  using assms
  by (cases "own fs ''farmer''") (auto simp: DataChannelClient_def split: jsval.splits)

lemma constructor_accepts:
  assumes "passes_validation (Instance fs)"
  shows "\<exists>k. DataChannelClient N (own fs ''farmer'') sockets =
           (Inr \<lparr>farmer = k, socket = getChannelURL N k, error_listeners = [],
                  open_listeners = [], calls = []\<rparr>, sockets @ [getChannelURL N k])"
  using assms
  by (cases "own fs ''farmer''") (auto simp: DataChannelClient_def Let_def split: jsval.splits)

lemma valid_pointer_opens_socket:
  assumes "passes_validation pointer"
  shows "\<exists>dcx fs. pointer = Instance fs \<and>
           getStreamFromPointer N pointer sockets = (Inr dcx, sockets @ [socket dcx]) \<and>
           error_listeners dcx = [Callback] \<and> open_listeners dcx = [OnOpen fs] \<and> calls dcx = []"
proof (cases pointer)
  case (NotInstance v)
  with assms show ?thesis by simp
next
  case (Instance fs)
  with assms obtain k where
    "DataChannelClient N (own fs ''farmer'') sockets =
       (Inr \<lparr>farmer = k, socket = getChannelURL N k, error_listeners = [],
              open_listeners = [], calls = []\<rparr>, sockets @ [getChannelURL N k])"
    using constructor_accepts by blast
  with Instance show ?thesis by (simp add: getStreamFromPointer_def)
qed





lemma errors_reach_callback:
  assumes "error_listeners dcx = [Callback]"
  shows "client_run (map ClientError errs) dcx = Returns (dcx\<lparr>calls := calls dcx @ map CallError errs\<rparr>)"
  using assms
proof (induction errs arbitrary: dcx)
  case Nil
  then show ?case by simp
next
  case (Cons e errs)
  let ?d = "dcx\<lparr>calls := calls dcx @ [CallError e]\<rparr>"
  have "client_step (ClientError e) dcx = Returns ?d"
    using Cons.prems by (simp add: handleChannelError_def emit_error_def)
  moreover have "error_listeners ?d = [Callback]" using Cons.prems by simp
  ultimately show ?case using Cons.IH [of ?d] by simp
qed

lemma example_client_resolved:
  "getStreamFromPointer decimal example_pointer [] = (Inr example_client, [''ws://10.0.0.7:4000''])"
  by (simp add: example_pointer_def example_client_def getStreamFromPointer_def
      DataChannelClient_def own_def getChannelURL_def url_format_def trim_def is_space_def
      decimal_def Let_def)

text \<open>
  C7, as amended. Every error the client emits before it opens is handed to the callback,
  once for each error emitted and in order; the callback stays registered through them
  and is removed when the client opens.
\<close>

theorem errors_before_open:
  assumes "getStreamFromPointer N pointer sockets = (Inr dcx, w)"
  shows "\<exists>dcx'. client_run (map ClientError errs) dcx = Returns dcx' \<and>
           calls dcx' = map CallError errs \<and> error_listeners dcx' = [Callback] \<and>
           error_listeners (handleChannelOpen dcx') = []"
proof -
  have v: "passes_validation pointer"
  proof (cases pointer)
    case (NotInstance v)
    with assms show ?thesis by (simp add: getStreamFromPointer_def)
  next
    case (Instance fs)
    show ?thesis
    proof (rule ccontr)
      assume "\<not> passes_validation pointer"
      with Instance obtain msg where
        "DataChannelClient N (own fs ''farmer'') sockets = (Inl (AssertionError msg), sockets)"
        using constructor_rejects by blast
      with Instance assms show False by (simp add: getStreamFromPointer_def)
    qed
  qed
  from valid_pointer_opens_socket [OF v, of N sockets] assms obtain fs where
    d: "error_listeners dcx = [Callback]" "calls dcx = []" "open_listeners dcx = [OnOpen fs]"
    by auto
  let ?d = "dcx\<lparr>calls := calls dcx @ map CallError errs\<rparr>"
  have "client_run (map ClientError errs) dcx = Returns ?d"
    using errors_reach_callback [OF d(1)] .
  moreover have "error_listeners (handleChannelOpen ?d) = []"
    using d(3) by (simp add: handleChannelOpen_def Let_def)
  ultimately show ?thesis using d by simp
qed

theorem errors_before_open_witness:
  "\<exists>dcx'. client_run (map ClientError [TypeError]) example_client = Returns dcx' \<and>
      calls dcx' = map CallError [TypeError] \<and> error_listeners dcx' = [Callback] \<and>
      error_listeners (handleChannelOpen dcx') = []"
  using errors_before_open [OF example_client_resolved] by blast

text \<open>
  The claim as written fails: the callback is registered with \<^verbatim>\<open>on\<close>, so a second error
  before the open calls it a second time, and the first error deregisters nothing.
\<close>

theorem second_error_counterexample:
  "getStreamFromPointer decimal example_pointer [] = (Inr example_client, [''ws://10.0.0.7:4000''])
   \<and> client_run [ClientError (Error (JStr ''refused'')), ClientError (Error (JStr ''reset''))]
         example_client =
       Returns (example_client\<lparr>calls := [CallError (Error (JStr ''refused'')),
                                            CallError (Error (JStr ''reset''))]\<rparr>)
   \<and> error_listeners (state_of (client_run [ClientError (Error (JStr ''refused''))] example_client)) =
       [Callback]"
  using example_client_resolved
  by (simp add: example_client_def handleChannelError_def emit_error_def)

end
